theory Spec2Isabelle
  imports Main "HOL-Library.Word"
begin

chapter \<open>Favorite products of a customer, kept in one store field\<close>

text \<open>
  The handlers of the favorites app keep a customer's favorite product handles in one
  newline-separated text metafield of the remote store. This theory embeds the three
  handlers (ADD, REMOVE, READ-ALL) and the codec they share, with every exception of the
  source as a value and every store call recorded, and proves the properties claimed of
  them.
\<close>

section \<open>JavaScript strings\<close>

text \<open>
  A JavaScript string is a sequence of UTF-16 code units. Literals of the source are
  written with \<open>str\<close>, which embeds an ASCII literal.
\<close>

type_synonym code_unit = "16 word"
type_synonym jsstring = "code_unit list"

definition str :: "string \<Rightarrow> jsstring" where
  "str s = map (\<lambda>c. of_nat (of_char c)) s"

text \<open>\<^verbatim>\<open>String.prototype.trim\<close> removes WhiteSpace and LineTerminator code points.\<close>

definition is_white_space :: "code_unit \<Rightarrow> bool" where
  "is_white_space c \<longleftrightarrow>
     c = 0x09 \<or> c = 0x0A \<or> c = 0x0B \<or> c = 0x0C \<or> c = 0x0D \<or> c = 0x20 \<or> c = 0xA0 \<or>
     c = 0x1680 \<or> (0x2000 \<le> c \<and> c \<le> 0x200A) \<or> c = 0x2028 \<or> c = 0x2029 \<or>
     c = 0x202F \<or> c = 0x205F \<or> c = 0x3000 \<or> c = 0xFEFF"

definition trim :: "jsstring \<Rightarrow> jsstring" where
  "trim s = rev (dropWhile is_white_space (rev (dropWhile is_white_space s)))"

text \<open>
  \<^verbatim>\<open>s.replace(/^["']|["']$/g, '')\<close>: the first alternative matches a quote at index 0,
  the second a quote at the last index; with the \<open>g\<close> flag both matches are removed, and
  a one-character string is matched by the first alternative only.
\<close>

definition is_quote :: "code_unit \<Rightarrow> bool" where
  "is_quote c \<longleftrightarrow> c = 0x22 \<or> c = 0x27"

definition drop_end_quote :: "jsstring \<Rightarrow> jsstring" where
  "drop_end_quote s = (if s \<noteq> [] \<and> is_quote (last s) then butlast s else s)"

definition replace_quotes :: "jsstring \<Rightarrow> jsstring" where
  "replace_quotes s =
     (case s of
        [] \<Rightarrow> []
      | c # cs \<Rightarrow> if is_quote c then drop_end_quote cs else drop_end_quote (c # cs))"

text \<open>\<^verbatim>\<open>s.split("\n")\<close> and \<^verbatim>\<open>xs.join(sep)\<close>.\<close>

fun split_nl :: "jsstring \<Rightarrow> jsstring list" where
  "split_nl [] = [[]]"
| "split_nl (c # cs) =
     (if c = 0x0A then [] # split_nl cs
      else (case split_nl cs of [] \<Rightarrow> [[c]] | l # ls \<Rightarrow> (c # l) # ls))"

fun join :: "jsstring \<Rightarrow> jsstring list \<Rightarrow> jsstring" where
  "join sep [] = []"
| "join sep [x] = x"
| "join sep (x # y # ys) = x @ sep @ join sep (y # ys)"

text \<open>\<^verbatim>\<open>t.includes(s)\<close> on strings: \<open>s\<close> occurs in \<open>t\<close> as a substring.\<close>

fun includes_str :: "jsstring \<Rightarrow> jsstring \<Rightarrow> bool" where
  "includes_str [] s = (s = [])"
| "includes_str (c # cs) s = (take (length s) (c # cs) = s \<or> includes_str cs s)"

text \<open>Decimal rendering of a non-negative integer, as template literals produce it.\<close>

fun digits :: "nat \<Rightarrow> jsstring" where
  "digits n = (if n < 10 then [of_nat (48 + n)] else digits (n div 10) @ [of_nat (48 + n mod 10)])"

declare digits.simps [simp del]

section \<open>The favorites codec\<close>

text \<open>
  Both write handlers decode the stored value with
  \<^verbatim>\<open>.split("\n").map((v) => v.trim().replace(/^["']|["']$/g, '')).filter(Boolean)\<close>
  and encode a list with \<^verbatim>\<open>.join("\n")\<close>.
\<close>

definition clean_line :: "jsstring \<Rightarrow> jsstring" where
  "clean_line v = replace_quotes (trim v)"

definition parse_favorites :: "jsstring \<Rightarrow> jsstring list" where
  "parse_favorites s = filter (\<lambda>v. v \<noteq> []) (map clean_line (split_nl s))"

definition join_favorites :: "jsstring list \<Rightarrow> jsstring" where
  "join_favorites hs = join [0x0A] hs"

text \<open>
  \<^verbatim>\<open>Array.from(new Set(xs))\<close>: a Set keeps insertion order, and adding a value it
  already holds changes nothing.
\<close>

definition set_add :: "'a list \<Rightarrow> 'a \<Rightarrow> 'a list" where
  "set_add s x = (if x \<in> set s then s else s @ [x])"

definition array_from_set :: "'a list \<Rightarrow> 'a list" where
  "array_from_set xs = foldl set_add [] xs"

definition merge_favorites :: "jsstring list \<Rightarrow> jsstring list \<Rightarrow> jsstring list" where
  "merge_favorites currentFavorites allNewFavorites =
     array_from_set (currentFavorites @ allNewFavorites)"

text \<open>
  The specification's reading of de-duplication: every element is kept at its first
  occurrence and dropped everywhere after it.
\<close>

fun first_seen :: "'a list \<Rightarrow> 'a list" where
  "first_seen [] = []"
| "first_seen (x # xs) = x # first_seen (filter (\<lambda>y. y \<noteq> x) xs)"

section \<open>Values parsed from JSON\<close>

text \<open>
  Request bodies and store replies are arbitrary JSON. A number is observed by the
  handlers only through its truthiness and its \<^verbatim>\<open>String()\<close> text, so \<open>JNum\<close> carries
  exactly these two observations. An object is its list of own properties (keys
  distinct). A value that may be \<^verbatim>\<open>undefined\<close> is a \<open>json option\<close>.
\<close>

datatype json =
    JNull
  | JBool bool
  | JNum bool jsstring
  | JStr jsstring
  | JArr "json list"
  | JObj "(jsstring \<times> json) list"

text \<open>
  What the handlers throw: \<open>Error m\<close> is \<^verbatim>\<open>throw new Error(m)\<close>; \<open>TypeError\<close> is raised
  by the runtime when a property of \<^verbatim>\<open>null\<close>/\<^verbatim>\<open>undefined\<close> is read or a value that is
  not a function is called; \<open>Rejected\<close> is a rejection of an awaited external call
  (\<^verbatim>\<open>fetch\<close>, \<^verbatim>\<open>response.json()\<close>, \<^verbatim>\<open>response.text()\<close>, the session storage).
\<close>

datatype thrown = Error jsstring | TypeError | Rejected

fun truthy :: "json option \<Rightarrow> bool" where
  "truthy None = False"
| "truthy (Some JNull) = False"
| "truthy (Some (JBool b)) = b"
| "truthy (Some (JNum nonzero t)) = nonzero"
| "truthy (Some (JStr s)) = (s \<noteq> [])"
| "truthy (Some (JArr xs)) = True"
| "truthy (Some (JObj kvs)) = True"

text \<open>
  \<open>get_prop v k\<close> is \<^verbatim>\<open>v.k\<close> and \<open>opt_prop v k\<close> is \<^verbatim>\<open>v?.k\<close>, for the property names the
  handlers read (none of them is a built-in property of strings, arrays or objects;
  \<^verbatim>\<open>length\<close> is read with \<open>length_prop\<close>).
\<close>

fun opt_prop :: "json option \<Rightarrow> jsstring \<Rightarrow> json option" where
  "opt_prop (Some (JObj kvs)) k = map_of kvs k"
| "opt_prop v k = None"

fun get_prop :: "json option \<Rightarrow> jsstring \<Rightarrow> thrown + json option" where
  "get_prop None k = Inl TypeError"
| "get_prop (Some JNull) k = Inl TypeError"
| "get_prop v k = Inr (opt_prop v k)"

definition js_number :: "nat \<Rightarrow> json" where
  "js_number n = JNum (n \<noteq> 0) (digits n)"

fun length_prop :: "json \<Rightarrow> json option" where
  "length_prop (JStr s) = Some (js_number (length s))"
| "length_prop (JArr xs) = Some (js_number (length xs))"
| "length_prop (JObj kvs) = map_of kvs (str ''length'')"
| "length_prop v = None"

text \<open>\<^verbatim>\<open>String(v)\<close> and template interpolation; \<^verbatim>\<open>Array.prototype.join\<close> renders
  \<^verbatim>\<open>null\<close> elements as the empty string.\<close>

fun to_String :: "json \<Rightarrow> jsstring" where
  "to_String JNull = str ''null''"
| "to_String (JBool b) = (if b then str ''true'' else str ''false'')"
| "to_String (JNum nonzero t) = t"
| "to_String (JStr s) = s"
| "to_String (JArr xs) = join (str '','') (map (\<lambda>x. if x = JNull then [] else to_String x) xs)"
| "to_String (JObj kvs) = str ''[object Object]''"

text \<open>\<^verbatim>\<open>v.includes(s)\<close>: a method of strings and arrays only.\<close>

fun includes_call :: "json option \<Rightarrow> jsstring \<Rightarrow> thrown + bool" where
  "includes_call (Some (JStr t)) s = Inr (includes_str t s)"
| "includes_call (Some (JArr xs)) s = Inr (JStr s \<in> set xs)"
| "includes_call v s = Inl TypeError"

section \<open>Requests, the store and responses\<close>

text \<open>
  An awaited external call either rejects or resolves. The environment of one handler
  run gives the outcome of each external call the handler can make, in program order:
  the session lookup, the read of the field, the mutation, the verification re-read.
  \<open>gt_zero\<close> is the runtime's comparison \<^verbatim>\<open>x > 0\<close> on a JSON value, which the handlers
  reach only for a \<^verbatim>\<open>length\<close> property that is an own property of an object.
\<close>

datatype 'a awaited = Rejects | Resolves 'a

record http_response =
  ok :: bool
  status_code :: nat
  statusText :: jsstring
  text_result :: "jsstring awaited"
  json_result :: "json awaited"

record env =
  findSessionsByShop :: "json \<Rightarrow> jsstring list option awaited"
  gt_zero :: "json option \<Rightarrow> bool"
  fetch_read :: "http_response awaited"
  fetch_write :: "http_response awaited"
  fetch_verify :: "http_response awaited"

record request =
  meth :: jsstring
  json_body :: "json awaited"

text \<open>
  The GraphQL documents sent to the store, with the values interpolated into them or
  passed as variables: the read query (customer id, namespace), \<^verbatim>\<open>metafieldsSet\<close>
  (ownerId, namespace, value; key and type are fixed), \<^verbatim>\<open>metafieldDelete\<close> (the field
  id), the verification query and the read-all query. A store call is a \<^verbatim>\<open>fetch\<close> of
  the GraphQL URL with the session's access token.
\<close>

datatype graphql =
    Get_metafield jsstring jsstring
  | Metafields_set json json jsstring
  | Metafield_delete "json option"
  | Verify_metafield jsstring jsstring
  | Get_customer jsstring

datatype store_call = Fetch jsstring jsstring graphql

text \<open>
  The response bodies, one constructor for each object literal the handlers return, its
  fields in source order. \<open>Caught e\<close> is \<^verbatim>\<open>{success: false, error: error.message || String(error)}\<close>.
\<close>

datatype body =
    No_content
  | Caught thrown
  | Access_required jsstring jsstring jsstring jsstring json
  | No_valid_handles jsstring "json list" "jsstring list"
  | Store_errors json
  | Added jsstring nat nat nat "jsstring list" json json json "json option"
  | No_favorites jsstring json json
  | Handle_not_found jsstring json json "jsstring list"
  | Removed jsstring json nat nat "jsstring list" bool json json
  | Customer_not_found jsstring
  | Customer_metafields "json option list" "json option" "json option list" nat bool "jsstring list"

fun success :: "body \<Rightarrow> bool option" where
  "success No_content = None"
| "success (Caught _) = Some False"
| "success (Access_required _ _ _ _ _) = Some False"
| "success (No_valid_handles _ _ _) = Some False"
| "success (Store_errors _) = Some False"
| "success (Added _ _ _ _ _ _ _ _ _) = Some True"
| "success (No_favorites _ _ _) = Some False"
| "success (Handle_not_found _ _ _ _) = Some False"
| "success (Removed _ _ _ _ _ _ _ _) = Some True"
| "success (Customer_not_found _) = Some False"
| "success (Customer_metafields _ _ _ _ _ _) = Some True"

record response =
  status :: nat
  body :: body

text \<open>
  A step of a handler throws, returns a response, or continues with a value. The
  handlers' \<^verbatim>\<open>try { ... } catch (error)\<close> turns everything thrown into status 500.
\<close>

datatype 'a step = Throw thrown | Return response | Continue 'a

fun catch :: "response step \<Rightarrow> response" where
  "catch (Throw e) = \<lparr>status = 500, body = Caught e\<rparr>"
| "catch (Return r) = r"
| "catch (Continue r) = r"

section \<open>Steps shared by the handlers\<close>

fun js_or :: "json option \<Rightarrow> json \<Rightarrow> json" where
  "js_or None d = d"
| "js_or (Some v) d = (if truthy (Some v) then v else d)"

text \<open>
  \<^verbatim>\<open>userErrors.length > 0\<close>, for the operand of the handlers: the result of an \<^verbatim>\<open>||\<close>
  whose last alternative is an array, hence never \<^verbatim>\<open>null\<close>. Booleans and numbers have
  no \<^verbatim>\<open>length\<close>, and \<^verbatim>\<open>undefined > 0\<close> is false.
\<close>

definition length_positive :: "env \<Rightarrow> json \<Rightarrow> bool" where
  "length_positive env v =
     (case v of
        JStr s \<Rightarrow> s \<noteq> []
      | JArr xs \<Rightarrow> xs \<noteq> []
      | JObj kvs \<Rightarrow> gt_zero env (map_of kvs (str ''length''))
      | _ \<Rightarrow> False)"

definition shop_domain :: "json \<Rightarrow> thrown + json" where
  "shop_domain shop =
     (case includes_call (Some shop) (str ''.myshopify.com'') of
        Inl e \<Rightarrow> Inl e
      | Inr inc \<Rightarrow> Inr (if inc then shop else JStr (to_String shop @ str ''.myshopify.com'')))"

definition find_session :: "env \<Rightarrow> json \<Rightarrow> thrown + jsstring" where
  "find_session env shopDomain =
     (case findSessionsByShop env shopDomain of
        Rejects \<Rightarrow> Inl Rejected
      | Resolves None \<Rightarrow> Inl (Error (str ''No active session found for shop: '' @ to_String shopDomain))
      | Resolves (Some []) \<Rightarrow> Inl (Error (str ''No active session found for shop: '' @ to_String shopDomain))
      | Resolves (Some (session # rest)) \<Rightarrow> Inr session)"

definition graphql_url :: "json \<Rightarrow> jsstring" where
  "graphql_url shopDomain = str ''https://'' @ to_String shopDomain @ str ''/admin/api/2024-01/graphql.json''"

text \<open>\<^verbatim>\<open>await fetch(...)\<close> followed by \<^verbatim>\<open>await response.json()\<close>, without and with the
  \<^verbatim>\<open>response.ok\<close> check of the mutation.\<close>

definition fetch_json :: "http_response awaited \<Rightarrow> thrown + json" where
  "fetch_json f =
     (case f of
        Rejects \<Rightarrow> Inl Rejected
      | Resolves r \<Rightarrow> (case json_result r of Rejects \<Rightarrow> Inl Rejected | Resolves j \<Rightarrow> Inr j))"

definition request_failed :: "http_response \<Rightarrow> thrown" where
  "request_failed r =
     Error (str ''GraphQL request failed: '' @ digits (status_code r) @ str '' '' @ statusText r)"

definition fetch_checked :: "http_response awaited \<Rightarrow> thrown + json" where
  "fetch_checked f =
     (case f of
        Rejects \<Rightarrow> Inl Rejected
      | Resolves r \<Rightarrow>
          if \<not> ok r then
            (case text_result r of Rejects \<Rightarrow> Inl Rejected | Resolves errorText \<Rightarrow> Inl (request_failed r))
          else (case json_result r of Rejects \<Rightarrow> Inl Rejected | Resolves j \<Rightarrow> Inr j))"

text \<open>
  The access-policy check:
  \<^verbatim>\<open>errors.find(error => error.extensions?.code === "ACCESS_DENIED" && error.message.includes("protected customer data"))\<close>.
\<close>

definition is_access_denied :: "json \<Rightarrow> thrown + bool" where
  "is_access_denied error =
     (case get_prop (Some error) (str ''extensions'') of
        Inl e \<Rightarrow> Inl e
      | Inr extensions \<Rightarrow>
          if opt_prop extensions (str ''code'') = Some (JStr (str ''ACCESS_DENIED'')) then
            (case get_prop (Some error) (str ''message'') of
               Inl e \<Rightarrow> Inl e
             | Inr message \<Rightarrow> includes_call message (str ''protected customer data''))
          else Inr False)"

fun find_access_denied :: "json list \<Rightarrow> thrown + json option" where
  "find_access_denied [] = Inr None"
| "find_access_denied (error # errors) =
     (case is_access_denied error of
        Inl e \<Rightarrow> Inl e
      | Inr found \<Rightarrow> if found then Inr (Some error) else find_access_denied errors)"

definition errors_find :: "json option \<Rightarrow> thrown + json option" where
  "errors_find errors =
     (case errors of Some (JArr es) \<Rightarrow> find_access_denied es | _ \<Rightarrow> Inl TypeError)"

definition access_required :: "json \<Rightarrow> response" where
  "access_required accessDeniedError =
     \<lparr>status = 403,
      body = Access_required
        (str ''Protected Customer Data Access Required'')
        (str ''This app needs to be approved for protected customer data access to manage customer metafields. Please apply for this access in your Shopify Partner Dashboard.'')
        (str ''https://shopify.dev/docs/apps/launch/protected-customer-data'')
        (str ''For development, consider using app metafields or session storage as alternatives.'')
        accessDeniedError\<rparr>"

text \<open>The check after the read: \<^verbatim>\<open>if (getMetafieldResult.errors) { ... }\<close>.\<close>

definition read_access_check :: "json \<Rightarrow> thrown + json option" where
  "read_access_check getMetafieldResult =
     (case get_prop (Some getMetafieldResult) (str ''errors'') of
        Inl e \<Rightarrow> Inl e
      | Inr errors \<Rightarrow> if truthy errors then errors_find errors else Inr None)"

text \<open>\<^verbatim>\<open>getMetafieldResult?.data?.customer?.metafield\<close>\<close>

definition existing_metafield :: "json \<Rightarrow> json option" where
  "existing_metafield getMetafieldResult =
     opt_prop (opt_prop (opt_prop (Some getMetafieldResult) (str ''data'')) (str ''customer'')) (str ''metafield'')"

text \<open>
  The checks on the mutation result: top-level \<^verbatim>\<open>errors\<close> (access policy first, then
  passed through with status 400), then the mutation's \<^verbatim>\<open>userErrors\<close>.
\<close>

definition mutation_checks :: "env \<Rightarrow> json \<Rightarrow> json \<Rightarrow> json step" where
  "mutation_checks env result userErrors =
     (case get_prop (Some result) (str ''errors'') of
        Inl e \<Rightarrow> Throw e
      | Inr errors \<Rightarrow>
          if truthy errors then
            (case errors of
               Some (JArr es) \<Rightarrow>
                 (case find_access_denied es of
                    Inl e \<Rightarrow> Throw e
                  | Inr (Some accessDeniedError) \<Rightarrow> Return (access_required accessDeniedError)
                  | Inr None \<Rightarrow> Return \<lparr>status = 400, body = Store_errors (JArr es)\<rparr>)
             | _ \<Rightarrow> Throw TypeError)
          else if length_positive env userErrors then
            Return \<lparr>status = 400, body = Store_errors userErrors\<rparr>
          else Continue result)"

definition mutation_payload :: "json \<Rightarrow> jsstring \<Rightarrow> json option" where
  "mutation_payload result name = opt_prop (opt_prop (Some result) (str ''data'')) name"

record ctx =
  customerId :: json
  metafieldNamespace :: json
  graphqlUrl :: jsstring
  accessToken :: jsstring

definition read_call :: "'a ctx_scheme \<Rightarrow> store_call" where
  "read_call c =
     Fetch (graphqlUrl c) (accessToken c)
       (Get_metafield (to_String (customerId c)) (to_String (metafieldNamespace c)))"

definition verify_call :: "'a ctx_scheme \<Rightarrow> store_call" where
  "verify_call c =
     Fetch (graphqlUrl c) (accessToken c)
       (Verify_metafield (to_String (customerId c)) (to_String (metafieldNamespace c)))"

section \<open>The ADD handler\<close>

text \<open>
  The \<^verbatim>\<open>action\<close> of the update route that talks to the store: the second module of
  \<^verbatim>\<open>src/app/routes/api.update-metafields-temp.jsx\<close>.
\<close>

record update_ctx = ctx +
  metafields :: "json list"

record merge_plan =
  currentFavorites :: "jsstring list"
  allNewFavorites :: "jsstring list"
  mergedFavorites :: "jsstring list"

text \<open>\<^verbatim>\<open>metafields.find(m => m.key === "favorite_products")\<close>\<close>

fun find_favorites :: "json list \<Rightarrow> thrown + json option" where
  "find_favorites [] = Inr None"
| "find_favorites (m # ms) =
     (case get_prop (Some m) (str ''key'') of
        Inl e \<Rightarrow> Inl e
      | Inr key \<Rightarrow>
          if key = Some (JStr (str ''favorite_products'')) then Inr (Some m) else find_favorites ms)"

definition update_session :: "env \<Rightarrow> json \<Rightarrow> json \<Rightarrow> json list \<Rightarrow> update_ctx step" where
  "update_session env cid shop ms =
     (case shop_domain shop of
        Inl e \<Rightarrow> Throw e
      | Inr shopDomain \<Rightarrow>
          (case find_session env shopDomain of
             Inl e \<Rightarrow> Throw e
           | Inr token \<Rightarrow>
               (case find_favorites ms of
                  Inl e \<Rightarrow> Throw e
                | Inr favoritesMetafield \<Rightarrow>
                    Continue
                      \<lparr>customerId = cid,
                       metafieldNamespace =
                         js_or (opt_prop favoritesMetafield (str ''namespace'')) (JStr (str ''favorites'')),
                       graphqlUrl = graphql_url shopDomain,
                       accessToken = token,
                       metafields = ms\<rparr>)))"

text \<open>
  Body parsing and input validation. Destructuring \<^verbatim>\<open>null\<close> is a TypeError. After the two
  truthiness checks \<open>customerId\<close> and \<open>shop\<close> are defined, so the last case is the
  failure of \<^verbatim>\<open>Array.isArray(metafields) && metafields.length !== 0\<close>.
\<close>

definition update_prelude :: "env \<Rightarrow> request \<Rightarrow> update_ctx step" where
  "update_prelude env req =
     (case json_body req of
        Rejects \<Rightarrow> Throw (Error (str ''Invalid request body. Expected JSON.''))
      | Resolves b \<Rightarrow>
          (case get_prop (Some b) (str ''customerId'') of
             Inl e \<Rightarrow> Throw e
           | Inr cid \<Rightarrow>
               if \<not> truthy cid then Throw (Error (str ''Missing required field: customerId''))
               else if \<not> truthy (opt_prop (Some b) (str ''shop'')) then
                 Throw (Error (str ''Missing required field: shop''))
               else
                 (case (cid, opt_prop (Some b) (str ''shop''), opt_prop (Some b) (str ''metafields'')) of
                    (Some c, Some shop, Some (JArr (m # ms))) \<Rightarrow> update_session env c shop (m # ms)
                  | _ \<Rightarrow> Throw (Error (str ''metafields must be a non-empty array'')))))"

text \<open>Step 2: the existing favorites, \<^verbatim>\<open>if (existingMetafield?.value) { ... }\<close>.\<close>

definition current_favorites :: "json option \<Rightarrow> thrown + jsstring list" where
  "current_favorites existingMetafield =
     (if truthy (opt_prop existingMetafield (str ''value'')) then
        (case opt_prop existingMetafield (str ''value'') of
           Some (JStr v) \<Rightarrow> Inr (parse_favorites v)
         | _ \<Rightarrow> Inl TypeError)
      else Inr [])"

text \<open>Step 3: the new values of one metafield of the request, and of all of them.\<close>

definition new_values :: "json \<Rightarrow> thrown + jsstring list" where
  "new_values metafield =
     (case get_prop (Some metafield) (str ''key'') of
        Inl e \<Rightarrow> Inl e
      | Inr key \<Rightarrow>
          if key = Some (JStr (str ''favorite_products''))
             \<and> truthy (opt_prop (Some metafield) (str ''value'')) then
            (case opt_prop (Some metafield) (str ''value'') of
               Some (JStr s) \<Rightarrow> Inr (parse_favorites (replace_quotes s))
             | Some (JArr vs) \<Rightarrow>
                 Inr (filter (\<lambda>v. v \<noteq> []) (map (\<lambda>v. clean_line (to_String v)) vs))
             | Some cleanValue \<Rightarrow> Inr (filter (\<lambda>v. v \<noteq> []) [clean_line (to_String cleanValue)])
             | None \<Rightarrow> Inr [])
          else Inr [])"

fun all_new_favorites :: "json list \<Rightarrow> thrown + jsstring list" where
  "all_new_favorites [] = Inr []"
| "all_new_favorites (metafield # rest) =
     (case new_values metafield of
        Inl e \<Rightarrow> Inl e
      | Inr newValues \<Rightarrow>
          (case all_new_favorites rest of Inl e \<Rightarrow> Inl e | Inr others \<Rightarrow> Inr (newValues @ others)))"

definition no_valid_handles :: "update_ctx \<Rightarrow> jsstring list \<Rightarrow> response" where
  "no_valid_handles c new =
     \<lparr>status = 400,
      body = No_valid_handles (str ''No valid product handles found after processing'')
               (metafields c) new\<rparr>"

text \<open>From the read of the field to the merged list (steps 2 to 4 and the emptiness check).\<close>

definition update_plan :: "env \<Rightarrow> update_ctx \<Rightarrow> merge_plan step" where
  "update_plan env c =
     (case fetch_json (fetch_read env) of
        Inl e \<Rightarrow> Throw e
      | Inr getMetafieldResult \<Rightarrow>
          (case read_access_check getMetafieldResult of
             Inl e \<Rightarrow> Throw e
           | Inr (Some accessDeniedError) \<Rightarrow> Return (access_required accessDeniedError)
           | Inr None \<Rightarrow>
               (case current_favorites (existing_metafield getMetafieldResult) of
                  Inl e \<Rightarrow> Throw e
                | Inr cur \<Rightarrow>
                    (case all_new_favorites (metafields c) of
                       Inl e \<Rightarrow> Throw e
                     | Inr new \<Rightarrow>
                         if merge_favorites cur new = [] then Return (no_valid_handles c new)
                         else Continue
                           \<lparr>currentFavorites = cur,
                            allNewFavorites = new,
                            mergedFavorites = merge_favorites cur new\<rparr>))))"

definition update_mutation :: "update_ctx \<Rightarrow> merge_plan \<Rightarrow> store_call" where
  "update_mutation c p =
     Fetch (graphqlUrl c) (accessToken c)
       (Metafields_set (customerId c) (metafieldNamespace c) (join_favorites (mergedFavorites p)))"

definition update_write :: "env \<Rightarrow> json step" where
  "update_write env =
     (case fetch_checked (fetch_write env) of
        Inl e \<Rightarrow> Throw e
      | Inr result \<Rightarrow>
          mutation_checks env result
            (js_or (opt_prop (mutation_payload result (str ''metafieldsSet'')) (str ''userErrors''))
               (JArr [])))"

definition added_message :: "merge_plan \<Rightarrow> jsstring" where
  "added_message p =
     str ''Successfully added '' @ digits (length (allNewFavorites p))
       @ str '' new favorites to existing '' @ digits (length (currentFavorites p))
       @ str ''. Total: '' @ digits (length (mergedFavorites p))"

definition update_verify :: "env \<Rightarrow> merge_plan \<Rightarrow> json \<Rightarrow> response step" where
  "update_verify env p result =
     (case fetch_json (fetch_verify env) of
        Inl e \<Rightarrow> Throw e
      | Inr verifyResult \<Rightarrow>
          Return
            \<lparr>status = 200,
             body = Added (added_message p)
               (length (currentFavorites p))
               (length (allNewFavorites p))
               (length (mergedFavorites p))
               (mergedFavorites p)
               (js_or (opt_prop (mutation_payload result (str ''metafieldsSet'')) (str ''metafields'')) (JArr []))
               verifyResult
               result
               (length_prop
                  (js_or (opt_prop (mutation_payload result (str ''metafieldsSet'')) (str ''metafields''))
                     (JArr [])))\<rparr>)"

text \<open>
  The body of the \<^verbatim>\<open>try\<close> block with the store calls it has issued. Each step after the
  prelude begins with its \<^verbatim>\<open>fetch\<close>, so the calls made are fixed by the step reached.
\<close>

definition try_update :: "env \<Rightarrow> request \<Rightarrow> response step \<times> store_call list" where
  "try_update env req =
     (case update_prelude env req of
        Throw e \<Rightarrow> (Throw e, [])
      | Return r \<Rightarrow> (Return r, [])
      | Continue c \<Rightarrow>
          (case update_plan env c of
             Throw e \<Rightarrow> (Throw e, [read_call c])
           | Return r \<Rightarrow> (Return r, [read_call c])
           | Continue p \<Rightarrow>
               (case update_write env of
                  Throw e \<Rightarrow> (Throw e, [read_call c, update_mutation c p])
                | Return r \<Rightarrow> (Return r, [read_call c, update_mutation c p])
                | Continue result \<Rightarrow>
                    (update_verify env p result,
                     [read_call c, update_mutation c p, verify_call c]))))"

definition action_update :: "env \<Rightarrow> request \<Rightarrow> response \<times> store_call list" where
  "action_update env req =
     (if meth req = str ''OPTIONS'' then (\<lparr>status = 204, body = No_content\<rparr>, [])
      else (catch (fst (try_update env req)), snd (try_update env req)))"

section \<open>The REMOVE handler\<close>

text \<open>The \<^verbatim>\<open>action\<close> of the remove route (\<^verbatim>\<open>src/unnamed/part_000\<close>).\<close>

record remove_ctx = ctx +
  productHandle :: json

record removal_plan =
  existingId :: "json option"
  previousFavorites :: "jsstring list"
  updatedFavorites :: "jsstring list"

definition remove_session :: "env \<Rightarrow> json \<Rightarrow> json \<Rightarrow> json \<Rightarrow> remove_ctx step" where
  "remove_session env cid handle shop =
     (case shop_domain shop of
        Inl e \<Rightarrow> Throw e
      | Inr shopDomain \<Rightarrow>
          (case find_session env shopDomain of
             Inl e \<Rightarrow> Throw e
           | Inr token \<Rightarrow>
               Continue
                 \<lparr>customerId = cid,
                  metafieldNamespace = JStr (str ''favorite''),
                  graphqlUrl = graphql_url shopDomain,
                  accessToken = token,
                  productHandle = handle\<rparr>))"

definition remove_prelude :: "env \<Rightarrow> request \<Rightarrow> remove_ctx step" where
  "remove_prelude env req =
     (case json_body req of
        Rejects \<Rightarrow> Throw (Error (str ''Invalid request body. Expected JSON.''))
      | Resolves b \<Rightarrow>
          (case get_prop (Some b) (str ''customerId'') of
             Inl e \<Rightarrow> Throw e
           | Inr cid \<Rightarrow>
               if \<not> truthy cid then Throw (Error (str ''Missing required field: customerId''))
               else if \<not> truthy (opt_prop (Some b) (str ''productHandle'')) then
                 Throw (Error (str ''Missing required field: productHandle''))
               else
                 (case (cid, opt_prop (Some b) (str ''productHandle''), opt_prop (Some b) (str ''shop'')) of
                    (Some c, Some handle, Some shop) \<Rightarrow>
                      if \<not> truthy (Some shop) then Throw (Error (str ''Missing required field: shop''))
                      else remove_session env c handle shop
                  | _ \<Rightarrow> Throw (Error (str ''Missing required field: shop'')))))"

definition no_favorites :: "remove_ctx \<Rightarrow> response" where
  "no_favorites c =
     \<lparr>status = 404,
      body = No_favorites (str ''No favorite products found for this customer'')
               (customerId c) (productHandle c)\<rparr>"

definition handle_not_found :: "remove_ctx \<Rightarrow> jsstring list \<Rightarrow> response" where
  "handle_not_found c cur =
     \<lparr>status = 404,
      body = Handle_not_found (str ''Product handle not found in favorites'')
               (customerId c) (productHandle c) cur\<rparr>"

text \<open>
  From the read of the field to the list that remains.
  \<^verbatim>\<open>currentFavorites.includes(productHandle)\<close> and \<^verbatim>\<open>handle !== productHandle\<close> compare
  the strings of the list with the request's value, which need not be a string.
\<close>

definition remove_plan :: "env \<Rightarrow> remove_ctx \<Rightarrow> removal_plan step" where
  "remove_plan env c =
     (case fetch_json (fetch_read env) of
        Inl e \<Rightarrow> Throw e
      | Inr getMetafieldResult \<Rightarrow>
          (case read_access_check getMetafieldResult of
             Inl e \<Rightarrow> Throw e
           | Inr (Some accessDeniedError) \<Rightarrow> Return (access_required accessDeniedError)
           | Inr None \<Rightarrow>
               if \<not> truthy (existing_metafield getMetafieldResult)
                  \<or> \<not> truthy (opt_prop (existing_metafield getMetafieldResult) (str ''value''))
               then Return (no_favorites c)
               else
                 (case opt_prop (existing_metafield getMetafieldResult) (str ''value'') of
                    Some (JStr v) \<Rightarrow>
                      if productHandle c \<notin> set (map JStr (parse_favorites v)) then
                        Return (handle_not_found c (parse_favorites v))
                      else Continue
                        \<lparr>existingId = opt_prop (existing_metafield getMetafieldResult) (str ''id''),
                         previousFavorites = parse_favorites v,
                         updatedFavorites =
                           filter (\<lambda>handle. JStr handle \<noteq> productHandle c) (parse_favorites v)\<rparr>
                  | _ \<Rightarrow> Throw TypeError)))"

text \<open>Step 4: delete the field when nothing remains, set it to the remaining list otherwise.\<close>

definition remove_mutation :: "remove_ctx \<Rightarrow> removal_plan \<Rightarrow> store_call" where
  "remove_mutation c p =
     Fetch (graphqlUrl c) (accessToken c)
       (if updatedFavorites p = [] then Metafield_delete (existingId p)
        else Metafields_set (customerId c) (metafieldNamespace c) (join_favorites (updatedFavorites p)))"

definition remove_write :: "env \<Rightarrow> json step" where
  "remove_write env =
     (case fetch_checked (fetch_write env) of
        Inl e \<Rightarrow> Throw e
      | Inr result \<Rightarrow>
          mutation_checks env result
            (js_or (opt_prop (mutation_payload result (str ''metafieldsSet'')) (str ''userErrors''))
               (js_or (opt_prop (mutation_payload result (str ''metafieldDelete'')) (str ''userErrors''))
                  (JArr []))))"

definition removed_message :: "remove_ctx \<Rightarrow> removal_plan \<Rightarrow> jsstring" where
  "removed_message c p =
     (if updatedFavorites p = [] then
        str ''Successfully removed \"'' @ to_String (productHandle c)
          @ str ''\" from favorites. All favorites cleared.''
      else
        str ''Successfully removed \"'' @ to_String (productHandle c) @ str ''\" from favorites. ''
          @ digits (length (updatedFavorites p)) @ str '' favorites remaining.'')"

definition remove_verify :: "env \<Rightarrow> remove_ctx \<Rightarrow> removal_plan \<Rightarrow> json \<Rightarrow> response step" where
  "remove_verify env c p result =
     (case fetch_json (fetch_verify env) of
        Inl e \<Rightarrow> Throw e
      | Inr verifyResult \<Rightarrow>
          Return
            \<lparr>status = 200,
             body = Removed (removed_message c p)
               (productHandle c)
               (length (previousFavorites p))
               (length (updatedFavorites p))
               (updatedFavorites p)
               (updatedFavorites p = [])
               verifyResult
               result\<rparr>)"

definition try_remove :: "env \<Rightarrow> request \<Rightarrow> response step \<times> store_call list" where
  "try_remove env req =
     (case remove_prelude env req of
        Throw e \<Rightarrow> (Throw e, [])
      | Return r \<Rightarrow> (Return r, [])
      | Continue c \<Rightarrow>
          (case remove_plan env c of
             Throw e \<Rightarrow> (Throw e, [read_call c])
           | Return r \<Rightarrow> (Return r, [read_call c])
           | Continue p \<Rightarrow>
               (case remove_write env of
                  Throw e \<Rightarrow> (Throw e, [read_call c, remove_mutation c p])
                | Return r \<Rightarrow> (Return r, [read_call c, remove_mutation c p])
                | Continue result \<Rightarrow>
                    (remove_verify env c p result,
                     [read_call c, remove_mutation c p, verify_call c]))))"

definition action_remove :: "env \<Rightarrow> request \<Rightarrow> response \<times> store_call list" where
  "action_remove env req =
     (if meth req = str ''OPTIONS'' then (\<lparr>status = 204, body = No_content\<rparr>, [])
      else (catch (fst (try_remove env req)), snd (try_remove env req)))"

section \<open>The READ-ALL loader\<close>

text \<open>The \<^verbatim>\<open>loader\<close> of \<^verbatim>\<open>src/app/routes/api.get-metafields.jsx\<close>.\<close>

record get_request =
  customerId_param :: "jsstring option"
  shop_param :: "jsstring option"

definition fetch_ok_json :: "http_response awaited \<Rightarrow> thrown + json" where
  "fetch_ok_json f =
     (case f of
        Rejects \<Rightarrow> Inl Rejected
      | Resolves r \<Rightarrow>
          if \<not> ok r then Inl (request_failed r)
          else (case json_result r of Rejects \<Rightarrow> Inl Rejected | Resolves j \<Rightarrow> Inr j))"

text \<open>\<^verbatim>\<open>customer.metafields?.edges?.map(edge => edge.node) || []\<close>\<close>

fun edge_nodes :: "json list \<Rightarrow> thrown + json option list" where
  "edge_nodes [] = Inr []"
| "edge_nodes (edge # edges) =
     (case get_prop (Some edge) (str ''node'') of
        Inl e \<Rightarrow> Inl e
      | Inr node \<Rightarrow> (case edge_nodes edges of Inl e \<Rightarrow> Inl e | Inr nodes \<Rightarrow> Inr (node # nodes)))"

definition all_metafields :: "json option \<Rightarrow> thrown + json option list" where
  "all_metafields customer =
     (case opt_prop (opt_prop customer (str ''metafields'')) (str ''edges'') of
        None \<Rightarrow> Inr []
      | Some JNull \<Rightarrow> Inr []
      | Some (JArr edges) \<Rightarrow> edge_nodes edges
      | Some v \<Rightarrow> Inl TypeError)"

text \<open>
  \<^verbatim>\<open>favoritesMetafield?.value ? favoritesMetafield.value.split('\n').filter(Boolean) : []\<close>
\<close>

definition favorite_products :: "json option \<Rightarrow> thrown + jsstring list" where
  "favorite_products favoritesMetafield =
     (if truthy (opt_prop favoritesMetafield (str ''value'')) then
        (case opt_prop favoritesMetafield (str ''value'') of
           Some (JStr v) \<Rightarrow> Inr (filter (\<lambda>l. l \<noteq> []) (split_nl v))
         | _ \<Rightarrow> Inl TypeError)
      else Inr [])"

definition loader_customer :: "json \<Rightarrow> response step" where
  "loader_customer result =
     (if \<not> truthy (opt_prop (opt_prop (Some result) (str ''data'')) (str ''customer'')) then
        Return \<lparr>status = 404, body = Customer_not_found (str ''Customer not found'')\<rparr>
      else
        (case all_metafields (opt_prop (opt_prop (Some result) (str ''data'')) (str ''customer'')) of
           Inl e \<Rightarrow> Throw e
         | Inr allMetafields \<Rightarrow>
             (case favorite_products
                     (opt_prop (opt_prop (opt_prop (Some result) (str ''data'')) (str ''customer''))
                        (str ''metafield'')) of
                Inl e \<Rightarrow> Throw e
              | Inr favoriteProducts \<Rightarrow>
                  Return
                    \<lparr>status = 200,
                     body = Customer_metafields
                       (map (opt_prop (opt_prop (opt_prop (Some result) (str ''data'')) (str ''customer'')))
                          [str ''id'', str ''email'', str ''firstName'', str ''lastName''])
                       (opt_prop (opt_prop (opt_prop (Some result) (str ''data'')) (str ''customer''))
                          (str ''metafield''))
                       allMetafields
                       (length allMetafields)
                       (truthy (opt_prop (opt_prop (opt_prop (Some result) (str ''data'')) (str ''customer''))
                          (str ''metafield'')))
                       favoriteProducts\<rparr>)))"

definition loader_result :: "env \<Rightarrow> response step" where
  "loader_result env =
     (case fetch_ok_json (fetch_read env) of
        Inl e \<Rightarrow> Throw e
      | Inr result \<Rightarrow>
          (case get_prop (Some result) (str ''errors'') of
             Inl e \<Rightarrow> Throw e
           | Inr None \<Rightarrow> loader_customer result
           | Inr (Some errors) \<Rightarrow>
               if truthy (Some errors) then Return \<lparr>status = 400, body = Store_errors errors\<rparr>
               else loader_customer result))"

definition try_loader :: "env \<Rightarrow> get_request \<Rightarrow> response step \<times> store_call list" where
  "try_loader env q =
     (case customerId_param q of
        None \<Rightarrow> (Throw (Error (str ''Missing required parameter: customerId'')), [])
      | Some cid \<Rightarrow>
          if cid = [] then (Throw (Error (str ''Missing required parameter: customerId'')), [])
          else
            (case shop_param q of
               None \<Rightarrow> (Throw (Error (str ''Missing required parameter: shop'')), [])
             | Some shop \<Rightarrow>
                 if shop = [] then (Throw (Error (str ''Missing required parameter: shop'')), [])
                 else
                   (case find_session env
                           (JStr (if includes_str shop (str ''.myshopify.com'') then shop
                                  else shop @ str ''.myshopify.com'')) of
                      Inl e \<Rightarrow> (Throw e, [])
                    | Inr token \<Rightarrow>
                        (loader_result env,
                         [Fetch
                            (graphql_url
                               (JStr (if includes_str shop (str ''.myshopify.com'') then shop
                                      else shop @ str ''.myshopify.com'')))
                            token (Get_customer cid)]))))"

definition loader :: "env \<Rightarrow> get_request \<Rightarrow> response \<times> store_call list" where
  "loader env q = (catch (fst (try_loader env q)), snd (try_loader env q))"

section \<open>Example runs\<close>

text \<open>
  A store reply with the given JSON body, a store holding the raw value \<open>v\<close> in the
  favorites field, and requests of the two write handlers.
\<close>

definition reply :: "json \<Rightarrow> http_response awaited" where
  "reply j =
     Resolves \<lparr>ok = True, status_code = 200, statusText = str ''OK'', text_result = Resolves [],
               json_result = Resolves j\<rparr>"

definition field_reply :: "jsstring \<Rightarrow> json" where
  "field_reply v =
     JObj [(str ''data'',
       JObj [(str ''customer'',
         JObj [(str ''metafield'',
           JObj [(str ''id'', JStr (str ''gid://shopify/Metafield/1'')),
                 (str ''value'', JStr v),
                 (str ''type'', JStr (str ''multi_line_text_field''))])])])]"




definition set_reply :: json where
  "set_reply =
     JObj [(str ''data'',
       JObj [(str ''metafieldsSet'',
         JObj [(str ''metafields'', JArr []), (str ''userErrors'', JArr [])])])]"

definition store_env :: "json \<Rightarrow> http_response awaited \<Rightarrow> http_response awaited \<Rightarrow> env" where
  "store_env readResult w v =
     \<lparr>findSessionsByShop = (\<lambda>shopDomain. Resolves (Some [str ''token''])),
      gt_zero = (\<lambda>x. False),
      fetch_read = reply readResult,
      fetch_write = w,
      fetch_verify = v\<rparr>"

definition add_request :: "jsstring \<Rightarrow> request" where
  "add_request v =
     \<lparr>meth = str ''POST'',
      json_body = Resolves (JObj
        [(str ''customerId'', JStr (str ''gid://shopify/Customer/7'')),
         (str ''shop'', JStr (str ''demo'')),
         (str ''metafields'', JArr [JObj [(str ''key'', JStr (str ''favorite_products'')),
                                          (str ''value'', JStr v)]])])\<rparr>"

definition remove_request :: "jsstring \<Rightarrow> request" where
  "remove_request h =
     \<lparr>meth = str ''POST'',
      json_body = Resolves (JObj
        [(str ''customerId'', JStr (str ''gid://shopify/Customer/7'')),
         (str ''productHandle'', JStr h),
         (str ''shop'', JStr (str ''demo''))])\<rparr>"

text \<open>What the preludes compute from these requests.\<close>

definition add_ctx :: "jsstring \<Rightarrow> update_ctx" where
  "add_ctx v =
     \<lparr>customerId = JStr (str ''gid://shopify/Customer/7''),
      metafieldNamespace = JStr (str ''favorites''),
      graphqlUrl = str ''https://demo.myshopify.com/admin/api/2024-01/graphql.json'',
      accessToken = str ''token'',
      metafields = [JObj [(str ''key'', JStr (str ''favorite_products'')), (str ''value'', JStr v)]]\<rparr>"

definition removal_ctx :: "jsstring \<Rightarrow> remove_ctx" where
  "removal_ctx h =
     \<lparr>customerId = JStr (str ''gid://shopify/Customer/7''),
      metafieldNamespace = JStr (str ''favorite''),
      graphqlUrl = str ''https://demo.myshopify.com/admin/api/2024-01/graphql.json'',
      accessToken = str ''token'',
      productHandle = JStr h\<rparr>"

text \<open>A store reply for a customer without the favorites field.\<close>

definition absent_reply :: json where
  "absent_reply = JObj [(str ''data'', JObj [(str ''customer'', JObj [(str ''metafield'', JNull)])])]"



text \<open>A READ-ALL request for the same shop.\<close>

definition read_all_request :: get_request where
  "read_all_request = \<lparr>customerId_param = Some (str ''gid://shopify/Customer/7''),
                        shop_param = Some (str ''demo'')\<rparr>"

section \<open>Notions of the specification\<close>



text \<open>The number of incoming candidates that are not already in the current list.\<close>

definition net_new :: "jsstring list \<Rightarrow> jsstring list \<Rightarrow> nat" where
  "net_new current incoming = length (filter (\<lambda>h. h \<notin> set current) incoming)"

text \<open>The \<^verbatim>\<open>newFavoritesAdded\<close> field of a response body, when it has one.\<close>

fun newFavoritesAdded :: "body \<Rightarrow> nat option" where
  "newFavoritesAdded (Added _ _ new _ _ _ _ _ _) = Some new"
| "newFavoritesAdded _ = None"

text \<open>The \<^verbatim>\<open>favoriteProducts\<close> field of a response body, when it has one.\<close>

fun favoriteProducts :: "body \<Rightarrow> jsstring list option" where
  "favoriteProducts (Customer_metafields _ _ _ _ _ favorites) = Some favorites"
| "favoriteProducts _ = None"

text \<open>A request body misses a required field of the ADD or of the REMOVE operation.\<close>

fun nonempty_array :: "json option \<Rightarrow> bool" where
  "nonempty_array (Some (JArr (m # ms))) = True"
| "nonempty_array _ = False"

definition add_field_missing :: "json \<Rightarrow> bool" where
  "add_field_missing b \<longleftrightarrow>
     \<not> truthy (opt_prop (Some b) (str ''customerId''))
     \<or> \<not> truthy (opt_prop (Some b) (str ''shop''))
     \<or> \<not> nonempty_array (opt_prop (Some b) (str ''metafields''))"

definition remove_field_missing :: "json \<Rightarrow> bool" where
  "remove_field_missing b \<longleftrightarrow>
     \<not> truthy (opt_prop (Some b) (str ''customerId''))
     \<or> \<not> truthy (opt_prop (Some b) (str ''productHandle''))
     \<or> \<not> truthy (opt_prop (Some b) (str ''shop''))"

text \<open>What the input validation of the two write handlers throws for such a body.\<close>

definition add_validation_error :: "json \<Rightarrow> thrown" where
  "add_validation_error b =
     (if b = JNull then TypeError
      else if \<not> truthy (opt_prop (Some b) (str ''customerId'')) then
        Error (str ''Missing required field: customerId'')
      else if \<not> truthy (opt_prop (Some b) (str ''shop'')) then
        Error (str ''Missing required field: shop'')
      else Error (str ''metafields must be a non-empty array''))"

definition remove_validation_error :: "json \<Rightarrow> thrown" where
  "remove_validation_error b =
     (if b = JNull then TypeError
      else if \<not> truthy (opt_prop (Some b) (str ''customerId'')) then
        Error (str ''Missing required field: customerId'')
      else if \<not> truthy (opt_prop (Some b) (str ''productHandle'')) then
        Error (str ''Missing required field: productHandle'')
      else Error (str ''Missing required field: shop''))"

section \<open>Properties of the codec\<close>

lemma split_nl_no_nl: "l \<in> set (split_nl s) \<Longrightarrow> 0x0A \<notin> set l"
  by (induction s arbitrary: l) (auto split: list.splits if_splits)

lemma split_nl_plain: "0x0A \<notin> set h \<Longrightarrow> split_nl h = [h]"
  by (induction h) auto

lemma split_nl_append: "0x0A \<notin> set h \<Longrightarrow> split_nl (h @ 0x0A # r) = h # split_nl r"
  by (induction h) auto

lemma split_join:
  "hs \<noteq> [] \<Longrightarrow> \<forall>h\<in>set hs. 0x0A \<notin> set h \<Longrightarrow> split_nl (join [0x0A] hs) = hs"
  by (induction "[0x0A :: code_unit]" hs rule: join.induct)
    (auto simp: split_nl_plain split_nl_append)

lemma set_trim: "x \<in> set (trim s) \<Longrightarrow> x \<in> set s"
  unfolding trim_def by (auto dest!: set_dropWhileD)

lemma set_drop_end_quote: "x \<in> set (drop_end_quote s) \<Longrightarrow> x \<in> set s"
  unfolding drop_end_quote_def by (auto dest: in_set_butlastD split: if_splits)

lemma set_replace_quotes: "x \<in> set (replace_quotes s) \<Longrightarrow> x \<in> set s"
  unfolding replace_quotes_def by (auto dest: set_drop_end_quote split: list.splits if_splits)

lemma set_clean_line: "x \<in> set (clean_line s) \<Longrightarrow> x \<in> set s"
  unfolding clean_line_def by (auto dest: set_replace_quotes set_trim)

lemma length_trim: "length (trim s) \<le> length s"
  unfolding trim_def by (metis length_dropWhile_le length_rev order_trans)

lemma dropWhile_same_length: "length (dropWhile P xs) = length xs \<Longrightarrow> dropWhile P xs = xs"
  by (cases xs) (auto simp: dropWhile_eq_drop split: if_splits)

lemma trim_same_length:
  assumes "length (trim s) = length s"
  shows "trim s = s"
proof -
  let ?d = "dropWhile is_white_space s"
  have 1: "length (dropWhile is_white_space (rev ?d)) \<le> length ?d"
    by (metis length_dropWhile_le length_rev)
  have 2: "length ?d \<le> length s" by (rule length_dropWhile_le)
  from assms 1 2 have 3: "length ?d = length s"
    and 4: "length (dropWhile is_white_space (rev ?d)) = length (rev ?d)"
    by (simp_all add: trim_def)
  from 3 have "?d = s" by (rule dropWhile_same_length)
  moreover from 4 have "dropWhile is_white_space (rev ?d) = rev ?d"
    by (rule dropWhile_same_length)
  ultimately show ?thesis by (simp add: trim_def)
qed

lemma length_drop_end_quote: "length (drop_end_quote s) \<le> length s"
  by (simp add: drop_end_quote_def)

lemma drop_end_quote_same_length:
  "length (drop_end_quote s) = length s \<Longrightarrow> drop_end_quote s = s"
  by (cases s rule: rev_cases) (auto simp: drop_end_quote_def split: if_splits)

lemma length_replace_quotes: "length (replace_quotes s) \<le> length s"
  using length_drop_end_quote [of "tl s"] length_drop_end_quote [of s]
  by (cases s) (auto simp: replace_quotes_def)

lemma replace_quotes_same_length:
  "length (replace_quotes s) = length s \<Longrightarrow> replace_quotes s = s"
  using length_drop_end_quote [of "tl s"] drop_end_quote_same_length [of s]
  by (cases s) (auto simp: replace_quotes_def split: if_splits)

lemma length_clean_line: "length (clean_line s) \<le> length s"
  unfolding clean_line_def using length_replace_quotes [of "trim s"] length_trim [of s] by simp

lemma clean_line_same_length:
  assumes "length (clean_line s) = length s"
  shows "clean_line s = s"
proof -
  have 1: "length (replace_quotes (trim s)) \<le> length (trim s)" by (rule length_replace_quotes)
  have 2: "length (trim s) \<le> length s" by (rule length_trim)
  from assms 1 2 have t: "length (trim s) = length s"
    and r: "length (replace_quotes (trim s)) = length (trim s)"
    by (simp_all add: clean_line_def)
  from t have "trim s = s" by (rule trim_same_length)
  moreover from r have "replace_quotes (trim s) = trim s" by (rule replace_quotes_same_length)
  ultimately show ?thesis by (simp add: clean_line_def)
qed

lemma clean_line_Nil: "clean_line [] = []"
  by (simp add: clean_line_def trim_def replace_quotes_def)

lemma parse_favorites_no_nl: "h \<in> set (parse_favorites s) \<Longrightarrow> 0x0A \<notin> set h"
  unfolding parse_favorites_def by (auto dest: set_clean_line split_nl_no_nl)

lemma parse_favorites_nonempty: "h \<in> set (parse_favorites s) \<Longrightarrow> h \<noteq> []"
  by (simp add: parse_favorites_def)

lemma parse_join:
  assumes "\<forall>h\<in>set hs. 0x0A \<notin> set h"
  shows "parse_favorites (join_favorites hs) = filter (\<lambda>v. v \<noteq> []) (map clean_line hs)"
proof (cases hs)
  case Nil
  then show ?thesis by (simp add: parse_favorites_def join_favorites_def clean_line_Nil)
next
  case (Cons a as)
  with assms have "split_nl (join [0x0A] hs) = hs" by (intro split_join) auto
  then show ?thesis by (simp add: parse_favorites_def join_favorites_def)
qed

text \<open>Decoding an encoded decoding cleans every handle once more.\<close>

lemma reparse:
  "parse_favorites (join_favorites (parse_favorites s))
     = filter (\<lambda>v. v \<noteq> []) (map clean_line (parse_favorites s))"
  by (rule parse_join) (auto dest: parse_favorites_no_nl)

text \<open>
  Cleaning never lengthens a handle, so a set of handles that is its own image under
  cleaning (empty results dropped) consists of fixed points: otherwise the total length
  of the set would be smaller than itself.
\<close>

lemma clean_fixed_of_set_eq:
  fixes hs :: "jsstring list"
  assumes eq: "set (filter (\<lambda>v. v \<noteq> []) (map clean_line hs)) = set hs"
  shows "\<forall>h\<in>set hs. clean_line h = h"
proof -
  let ?S = "set hs"
  have img: "clean_line ` ?S - {[]} = ?S" using eq by auto
  have "sum length ?S = sum length (clean_line ` ?S - {[]})" using img by simp
  also have "\<dots> \<le> sum length (clean_line ` ?S)"
    by (rule sum_mono2) auto
  also have "\<dots> \<le> sum (length \<circ> clean_line) ?S"
    by (rule sum_image_le) auto
  finally have le: "sum length ?S \<le> sum (\<lambda>h. length (clean_line h)) ?S" by (simp add: comp_def)
  show ?thesis
  proof (rule ccontr)
    assume "\<not> (\<forall>h\<in>?S. clean_line h = h)"
    then obtain h where h: "h \<in> ?S" "clean_line h \<noteq> h" by blast
    then have "length (clean_line h) < length h"
      using length_clean_line [of h] clean_line_same_length [of h] by linarith
    with h have "sum (\<lambda>h. length (clean_line h)) ?S < sum length ?S"
      by (intro sum_strict_mono_ex1) (auto simp: length_clean_line)
    with le show False by simp
  qed
qed

lemma foldl_set_add:
  "foldl set_add acc xs = acc @ first_seen (filter (\<lambda>x. x \<notin> set acc) xs)"
proof (induction xs arbitrary: acc)
  case Nil
  then show ?case by simp
next
  case (Cons x xs)
  show ?case
  proof (cases "x \<in> set acc")
    case True
    then show ?thesis using Cons.IH [of acc] by (simp add: set_add_def)
  next
    case False
    have "filter (\<lambda>y. y \<notin> set (acc @ [x])) xs
            = filter (\<lambda>y. y \<noteq> x) (filter (\<lambda>y. y \<notin> set acc) xs)"
      by (induction xs) auto
    with False show ?thesis using Cons.IH [of "acc @ [x]"] by (simp add: set_add_def)
  qed
qed

lemma array_from_set_first_seen: "array_from_set xs = first_seen xs"
  by (simp add: array_from_set_def foldl_set_add)

section \<open>Properties of the shared steps\<close>









lemma update_after_plan:
  assumes "meth req \<noteq> str ''OPTIONS''" and "update_prelude env req = Continue c"
    and "update_plan env c = Continue p"
  shows "action_update env req =
     (case update_write env of
        Throw e \<Rightarrow> (\<lparr>status = 500, body = Caught e\<rparr>, [read_call c, update_mutation c p])
      | Return r \<Rightarrow> (r, [read_call c, update_mutation c p])
      | Continue result \<Rightarrow>
          (catch (update_verify env p result), [read_call c, update_mutation c p, verify_call c]))"
  using assms by (simp add: action_update_def try_update_def split: step.splits)




lemma access_required_fails: "success (body (access_required d)) = Some False"
  by (simp add: access_required_def)

lemma mutation_checks_return_fails:
  "mutation_checks env result ue = Return r \<Longrightarrow> success (body r) = Some False"
  by (auto simp: mutation_checks_def access_required_fails
      split: sum.splits option.splits json.splits if_splits)

lemma update_write_return_fails: "update_write env = Return r \<Longrightarrow> success (body r) = Some False"
  by (auto simp: update_write_def dest: mutation_checks_return_fails split: sum.splits)


text \<open>What a run of the ADD handler has passed when its steps continue.\<close>

lemma update_session_not_return: "update_session env cid shop ms \<noteq> Return r"
  by (simp add: update_session_def split: sum.splits)

lemma update_prelude_not_return: "update_prelude env req \<noteq> Return r"
  by (auto simp: update_prelude_def update_session_not_return
      split: awaited.splits sum.splits option.splits json.splits list.splits)

lemma update_plan_return_fails: "update_plan env c = Return r \<Longrightarrow> success (body r) = Some False"
  by (auto simp: update_plan_def access_required_fails no_valid_handles_def
      split: sum.splits option.splits if_splits)

lemma update_plan_continue:
  assumes "update_plan env c = Continue p"
  shows "\<exists>result. fetch_json (fetch_read env) = Inr result
           \<and> read_access_check result = Inr None
           \<and> current_favorites (existing_metafield result) = Inr (currentFavorites p)
           \<and> all_new_favorites (metafields c) = Inr (allNewFavorites p)
           \<and> mergedFavorites p = merge_favorites (currentFavorites p) (allNewFavorites p)
           \<and> mergedFavorites p \<noteq> []"
  using assms
  by (auto simp: update_plan_def split: sum.splits option.splits if_splits)

section \<open>Evaluation of the example runs\<close>

lemmas string_defs =
  str_def is_white_space_def trim_def is_quote_def drop_end_quote_def replace_quotes_def

lemmas codec_defs =
  clean_line_def parse_favorites_def join_favorites_def set_add_def array_from_set_def
  merge_favorites_def

lemma add_request_meth: "meth (add_request x) \<noteq> str ''OPTIONS''"
  by (simp add: add_request_def str_def)


lemma add_prelude: "update_prelude (store_env r w v) (add_request x) = Continue (add_ctx x)"
  by (simp add: update_prelude_def update_session_def shop_domain_def find_session_def
      graphql_url_def store_env_def add_request_def add_ctx_def str_def)

lemma remove_prelude:
  "h \<noteq> [] \<Longrightarrow> remove_prelude (store_env r w v) (remove_request h) = Continue (removal_ctx h)"
  by (simp add: remove_prelude_def remove_session_def shop_domain_def find_session_def
      graphql_url_def store_env_def remove_request_def removal_ctx_def str_def)

lemma fetch_json_reply: "fetch_json (reply j) = Inr j"
  by (simp add: fetch_json_def reply_def)

lemma fetch_checked_reply: "fetch_checked (reply j) = Inr j"
  by (simp add: fetch_checked_def reply_def)

lemma read_field: "fetch_json (fetch_read (store_env r w v)) = Inr r"
  by (simp add: store_env_def fetch_json_reply)


lemma field_reply_check: "read_access_check (field_reply x) = Inr None"
  by (simp add: read_access_check_def field_reply_def str_def)

lemma field_reply_value:
  "opt_prop (existing_metafield (field_reply x)) (str ''value'') = Some (JStr x)"
  by (simp add: existing_metafield_def field_reply_def str_def)


lemma parse_favorites_Nil: "parse_favorites [] = []"
  by (simp add: parse_favorites_def clean_line_Nil)

lemma field_reply_current:
  "current_favorites (existing_metafield (field_reply x)) = Inr (parse_favorites x)"
  by (simp add: current_favorites_def field_reply_value parse_favorites_Nil)




lemma set_reply_write: "update_write (store_env r (reply set_reply) v) = Continue set_reply"
  by (simp add: update_write_def store_env_def fetch_checked_reply mutation_checks_def
      mutation_payload_def length_positive_def set_reply_def str_def)




lemma add_plan_a_b:
  "update_plan (store_env (field_reply (str ''a'')) w v) (add_ctx (str ''b''))
     = Continue \<lparr>currentFavorites = [str ''a''], allNewFavorites = [str ''b''],
                  mergedFavorites = [str ''a'', str ''b'']\<rparr>"
  apply (simp add: update_plan_def read_field field_reply_check field_reply_current)
  apply (simp add: new_values_def add_ctx_def string_defs codec_defs)
  done

lemma add_plan_a_a:
  "update_plan (store_env (field_reply (str ''a'')) w v) (add_ctx (str ''a''))
     = Continue \<lparr>currentFavorites = [str ''a''], allNewFavorites = [str ''a''],
                  mergedFavorites = [str ''a'']\<rparr>"
  apply (simp add: update_plan_def read_field field_reply_check field_reply_current)
  apply (simp add: new_values_def add_ctx_def string_defs codec_defs)
  done





lemma verify_field: "fetch_json (fetch_verify (store_env r w (reply j))) = Inr j"
  by (simp add: store_env_def fetch_json_reply)



section \<open>The claims about the codec\<close>

text \<open>
  C2 (as amended). For every input string \<open>x\<close>, decoding the encoding of the decoding of
  \<open>x\<close> gives the same set of handles as decoding \<open>x\<close> exactly when every handle of the
  decoding is already clean, that is, unchanged by trimming and quote stripping. Decode
  splits on newline, trims each line, strips one leading and one trailing quote
  character and drops empty strings; encode joins with newline and adds no quotes.
\<close>

theorem decode_roundtrip:
  "set (parse_favorites (join_favorites (parse_favorites x))) = set (parse_favorites x)
     \<longleftrightarrow> (\<forall>h\<in>set (parse_favorites x). clean_line h = h)"
proof
  assume "set (parse_favorites (join_favorites (parse_favorites x))) = set (parse_favorites x)"
  then show "\<forall>h\<in>set (parse_favorites x). clean_line h = h"
    unfolding reparse by (rule clean_fixed_of_set_eq)
next
  assume a: "\<forall>h\<in>set (parse_favorites x). clean_line h = h"
  then have "map clean_line (parse_favorites x) = parse_favorites x" by (simp add: map_idI)
  moreover have "\<forall>h\<in>set (parse_favorites x). h \<noteq> []" by (simp add: parse_favorites_def)
  ultimately have "filter (\<lambda>v. v \<noteq> []) (map clean_line (parse_favorites x)) = parse_favorites x"
    by simp
  then show "set (parse_favorites (join_favorites (parse_favorites x))) = set (parse_favorites x)"
    by (simp add: reparse)
qed

theorem decode_roundtrip_witness:
  "parse_favorites (str '' 'shoe-1' \<newline>\<newline>\"shoe-2\"'') = [str ''shoe-1'', str ''shoe-2'']
   \<and> clean_line (str ''shoe-1'') = str ''shoe-1''
   \<and> clean_line (str ''shoe-2'') = str ''shoe-2''
   \<and> set (parse_favorites (join_favorites (parse_favorites (str '' 'shoe-1' \<newline>\<newline>\"shoe-2\"''))))
       = set (parse_favorites (str '' 'shoe-1' \<newline>\<newline>\"shoe-2\"''))"
proof -
  have p: "parse_favorites (str '' 'shoe-1' \<newline>\<newline>\"shoe-2\"'') = [str ''shoe-1'', str ''shoe-2'']"
    by (simp add: string_defs codec_defs)
  have c1: "clean_line (str ''shoe-1'') = str ''shoe-1''"
    and c2: "clean_line (str ''shoe-2'') = str ''shoe-2''"
    by (simp_all add: string_defs codec_defs)
  from p c1 c2 have "\<forall>h\<in>set (parse_favorites (str '' 'shoe-1' \<newline>\<newline>\"shoe-2\"'')). clean_line h = h"
    by simp
  with decode_roundtrip [of "str '' 'shoe-1' \<newline>\<newline>\"shoe-2\"''"] p c1 c2 show ?thesis
    by blast
qed

text \<open>
  C2 as stated fails: the quoted, padded line \<^verbatim>\<open>" a "\<close> decodes to the handle \<^verbatim>\<open> a \<close>
  (the quotes shield the spaces from the trim), and decoding its encoding trims it to
  \<^verbatim>\<open>a\<close>.
\<close>

theorem decode_roundtrip_counterexample:
  "set (parse_favorites (join_favorites (parse_favorites (str ''\" a \"''))))
     \<noteq> set (parse_favorites (str ''\" a \"''))"
  by (simp add: string_defs codec_defs)

lemma loader_field_reply:
  "favoriteProducts (body (fst (loader (store_env (field_reply raw) w v) read_all_request)))
     = Some (filter (\<lambda>l. l \<noteq> []) (split_nl raw))"
  by (cases raw)
    (simp_all add: loader_def try_loader_def read_all_request_def find_session_def store_env_def
      loader_result_def fetch_ok_json_def reply_def loader_customer_def all_metafields_def
      favorite_products_def field_reply_def str_def)

text \<open>
  C10. The READ-ALL loader decodes the stored value only by splitting on newline and
  dropping empty strings, where the ADD and REMOVE handlers also trim each line and strip
  its quotes. For a stored line wrapped in quotes and for one padded with spaces the
  \<open>favoriteProducts\<close> the loader returns differ from the list the ADD and REMOVE decoding
  produces for the same store reply.
\<close>

theorem read_all_decodes_differently:
  "favoriteProducts (body (fst (loader (store_env (field_reply raw) w v) read_all_request)))
     = Some (filter (\<lambda>l. l \<noteq> []) (split_nl raw))
   \<and> current_favorites (existing_metafield (field_reply raw)) = Inr (parse_favorites raw)
   \<and> filter (\<lambda>l. l \<noteq> []) (split_nl (str ''\"shoe-1\"'')) = [str ''\"shoe-1\"'']
   \<and> parse_favorites (str ''\"shoe-1\"'') = [str ''shoe-1'']
   \<and> filter (\<lambda>l. l \<noteq> []) (split_nl (str '' shoe-1 '')) = [str '' shoe-1 '']
   \<and> parse_favorites (str '' shoe-1 '') = [str ''shoe-1'']
   \<and> (\<exists>stored.
         favoriteProducts (body (fst (loader (store_env (field_reply stored) w v) read_all_request)))
           \<noteq> Some (parse_favorites stored))"
proof -
  have 1: "filter (\<lambda>l. l \<noteq> []) (split_nl (str ''\"shoe-1\"'')) = [str ''\"shoe-1\"'']"
    and 2: "filter (\<lambda>l. l \<noteq> []) (split_nl (str '' shoe-1 '')) = [str '' shoe-1 '']"
    by (simp_all add: str_def)
  have 3: "parse_favorites (str ''\"shoe-1\"'') = [str ''shoe-1'']"
    and 4: "parse_favorites (str '' shoe-1 '') = [str ''shoe-1'']"
    by (simp_all add: string_defs codec_defs)
  have "[str ''\"shoe-1\"''] \<noteq> [str ''shoe-1'']" by (simp add: str_def)
  with 1 3 have 5: "\<exists>stored.
         favoriteProducts (body (fst (loader (store_env (field_reply stored) w v) read_all_request)))
           \<noteq> Some (parse_favorites stored)"
    by (intro exI [of _ "str ''\"shoe-1\"''"]) (simp add: loader_field_reply)
  from loader_field_reply field_reply_current 1 2 3 4 5 show ?thesis by blast
qed

section \<open>The claims about the handlers\<close>













text \<open>
  C5 (as amended). For every request missing a required input field (\<open>customerId\<close>,
  \<open>shop\<close>, \<open>productHandle\<close> for REMOVE, a non-empty \<open>metafields\<close> array for ADD), the
  handler reports the validation failure with \<open>success\<close> false and status 500, the
  status of its catch-all, and makes no store call.
\<close>

theorem missing_field_reported:
  "(meth req \<noteq> str ''OPTIONS'' \<longrightarrow> json_body req = Resolves b \<longrightarrow> add_field_missing b \<longrightarrow>
      action_update env req = (\<lparr>status = 500, body = Caught (add_validation_error b)\<rparr>, [])
      \<and> success (body (fst (action_update env req))) = Some False)
   \<and> (meth req' \<noteq> str ''OPTIONS'' \<longrightarrow> json_body req' = Resolves b' \<longrightarrow> remove_field_missing b' \<longrightarrow>
      action_remove env' req' = (\<lparr>status = 500, body = Caught (remove_validation_error b')\<rparr>, [])
      \<and> success (body (fst (action_remove env' req'))) = Some False)"
proof -
  have add: "update_prelude env req = Throw (add_validation_error b)"
    if "json_body req = Resolves b" "add_field_missing b"
  proof (cases "b = JNull")
    case True
    with that(1) show ?thesis by (simp add: update_prelude_def add_validation_error_def)
  next
    case False
    then have g: "get_prop (Some b) k = Inr (opt_prop (Some b) k)" for k
      by (cases b) simp_all
    from that(2) consider
        "\<not> truthy (opt_prop (Some b) (str ''customerId''))"
      | "truthy (opt_prop (Some b) (str ''customerId''))"
        "\<not> truthy (opt_prop (Some b) (str ''shop''))"
      | "truthy (opt_prop (Some b) (str ''customerId''))"
        "truthy (opt_prop (Some b) (str ''shop''))"
        "\<not> nonempty_array (opt_prop (Some b) (str ''metafields''))"
      by (auto simp: add_field_missing_def)
    then show ?thesis
    proof cases
      case 1
      with that(1) False show ?thesis
        by (simp add: update_prelude_def add_validation_error_def g)
    next
      case 2
      with that(1) False show ?thesis
        by (simp add: update_prelude_def add_validation_error_def g)
    next
      case 3
      from 3(3) have "(case (opt_prop (Some b) (str ''customerId''), opt_prop (Some b) (str ''shop''),
                 opt_prop (Some b) (str ''metafields'')) of
              (Some c, Some shop, Some (JArr (m # ms))) \<Rightarrow> update_session env c shop (m # ms)
            | _ \<Rightarrow> Throw (Error (str ''metafields must be a non-empty array'')))
          = Throw (Error (str ''metafields must be a non-empty array''))"
        by (auto split: option.splits json.splits list.splits)
      with 3(1,2) that(1) False show ?thesis
        by (simp add: update_prelude_def add_validation_error_def g)
    qed
  qed
  have remove: "remove_prelude env' req' = Throw (remove_validation_error b')"
    if "json_body req' = Resolves b'" "remove_field_missing b'"
  proof (cases "b' = JNull")
    case True
    with that(1) show ?thesis by (simp add: remove_prelude_def remove_validation_error_def)
  next
    case False
    then have g: "get_prop (Some b') k = Inr (opt_prop (Some b') k)" for k
      by (cases b') simp_all
    from that(2) consider
        "\<not> truthy (opt_prop (Some b') (str ''customerId''))"
      | "truthy (opt_prop (Some b') (str ''customerId''))"
        "\<not> truthy (opt_prop (Some b') (str ''productHandle''))"
      | "truthy (opt_prop (Some b') (str ''customerId''))"
        "truthy (opt_prop (Some b') (str ''productHandle''))"
        "\<not> truthy (opt_prop (Some b') (str ''shop''))"
      by (auto simp: remove_field_missing_def)
    then show ?thesis
    proof cases
      case 1
      with that(1) False show ?thesis
        by (simp add: remove_prelude_def remove_validation_error_def g)
    next
      case 2
      with that(1) False show ?thesis
        by (simp add: remove_prelude_def remove_validation_error_def g)
    next
      case 3
      with that(1) False show ?thesis
        by (auto simp: remove_prelude_def remove_validation_error_def g split: option.splits)
    qed
  qed
  from add remove show ?thesis
    by (simp add: action_update_def try_update_def action_remove_def try_remove_def)
qed

theorem missing_field_reported_witness:
  "meth \<lparr>meth = str ''POST'',
         json_body = Resolves (JObj [(str ''customerId'', JStr (str ''gid://shopify/Customer/7''))])\<rparr>
     \<noteq> str ''OPTIONS''
   \<and> add_field_missing (JObj [(str ''customerId'', JStr (str ''gid://shopify/Customer/7''))])
   \<and> action_update (store_env absent_reply Rejects Rejects)
        \<lparr>meth = str ''POST'',
         json_body = Resolves (JObj [(str ''customerId'', JStr (str ''gid://shopify/Customer/7''))])\<rparr>
       = (\<lparr>status = 500, body = Caught (Error (str ''Missing required field: shop''))\<rparr>, [])
   \<and> remove_field_missing (JObj [(str ''customerId'', JStr (str ''gid://shopify/Customer/7'')),
                                 (str ''shop'', JStr (str ''demo''))])
   \<and> action_remove (store_env absent_reply Rejects Rejects)
        \<lparr>meth = str ''POST'',
         json_body = Resolves (JObj [(str ''customerId'', JStr (str ''gid://shopify/Customer/7'')),
                                     (str ''shop'', JStr (str ''demo''))])\<rparr>
       = (\<lparr>status = 500, body = Caught (Error (str ''Missing required field: productHandle''))\<rparr>, [])"
proof -
  let ?b = "JObj [(str ''customerId'', JStr (str ''gid://shopify/Customer/7''))]"
  let ?b' = "JObj [(str ''customerId'', JStr (str ''gid://shopify/Customer/7'')),
                   (str ''shop'', JStr (str ''demo''))]"
  have m: "meth \<lparr>meth = str ''POST'', json_body = Resolves j\<rparr> \<noteq> str ''OPTIONS''" for j
    by (simp add: str_def)
  have b: "json_body \<lparr>meth = str ''POST'', json_body = Resolves j\<rparr> = Resolves j" for j
    by simp
  have f: "add_field_missing ?b" by (simp add: add_field_missing_def str_def)
  have f': "remove_field_missing ?b'" by (simp add: remove_field_missing_def str_def)
  have e: "add_validation_error ?b = Error (str ''Missing required field: shop'')"
    by (simp add: add_validation_error_def str_def)
  have e': "remove_validation_error ?b' = Error (str ''Missing required field: productHandle'')"
    by (simp add: remove_validation_error_def str_def)
  note t = missing_field_reported
  note a = t [THEN conjunct1, rule_format, OF m b f, THEN conjunct1, unfolded e]
  note a' = t [THEN conjunct2, rule_format, OF m b f', THEN conjunct1, unfolded e']
  from m f f' a a' show ?thesis by blast
qed

text \<open>
  C5 as stated fails: the ADD request below has no \<open>customerId\<close>, and the handler answers
  with status 500, not 400.
\<close>

theorem missing_field_counterexample:
  "add_field_missing (JObj [(str ''shop'', JStr (str ''demo''))])
   \<and> action_update (store_env absent_reply Rejects Rejects)
        \<lparr>meth = str ''POST'', json_body = Resolves (JObj [(str ''shop'', JStr (str ''demo''))])\<rparr>
       = (\<lparr>status = 500, body = Caught (Error (str ''Missing required field: customerId''))\<rparr>, [])
   \<and> status (fst (action_update (store_env absent_reply Rejects Rejects)
        \<lparr>meth = str ''POST'', json_body = Resolves (JObj [(str ''shop'', JStr (str ''demo''))])\<rparr>))
       \<noteq> 400"
  by (simp add: add_field_missing_def action_update_def try_update_def update_prelude_def str_def)

text \<open>
  C8. For every current list and incoming candidate list, the merged list of the ADD
  path is the de-duplication of current followed by incoming in first-seen order; for
  current \<^verbatim>\<open>["a","b"]\<close> and incoming \<^verbatim>\<open>["b","c"]\<close> it is \<^verbatim>\<open>["a","b","c"]\<close>; and the merged
  list of every run of the handler that reaches the write is this de-duplication of the
  lists the run has decoded.
\<close>

theorem merge_keeps_first_seen:
  "merge_favorites current incoming = first_seen (current @ incoming)
   \<and> merge_favorites [str ''a'', str ''b''] [str ''b'', str ''c''] = [str ''a'', str ''b'', str ''c'']
   \<and> (update_plan env c = Continue p \<longrightarrow>
        mergedFavorites p = first_seen (currentFavorites p @ allNewFavorites p))"
proof -
  have 1: "merge_favorites xs ys = first_seen (xs @ ys)" for xs ys :: "jsstring list"
    by (simp add: merge_favorites_def array_from_set_first_seen)
  have 2: "merge_favorites [str ''a'', str ''b''] [str ''b'', str ''c'']
             = [str ''a'', str ''b'', str ''c'']"
    by (simp add: merge_favorites_def array_from_set_def set_add_def str_def)
  have 3: "mergedFavorites p = first_seen (currentFavorites p @ allNewFavorites p)"
    if "update_plan env c = Continue p"
    using update_plan_continue [OF that] by (auto simp: 1)
  from 1 2 3 show ?thesis by blast
qed

theorem merge_keeps_first_seen_witness:
  "update_plan (store_env (field_reply (str ''a'')) Rejects Rejects) (add_ctx (str ''b''))
     = Continue \<lparr>currentFavorites = [str ''a''], allNewFavorites = [str ''b''],
                  mergedFavorites = [str ''a'', str ''b'']\<rparr>
   \<and> [str ''a'', str ''b''] = first_seen ([str ''a''] @ [str ''b''])"
proof -
  note plan = add_plan_a_b [of Rejects Rejects]
  note merged = merge_keeps_first_seen
    [THEN conjunct2, THEN conjunct2, rule_format, OF plan, unfolded merge_plan.simps]
  from plan merged show ?thesis by (rule conjI)
qed

text \<open>
  C9 (as amended). For every successful ADD, the result reports the count of handles
  before, the count after, the full merged list, and the number of decoded incoming
  candidates: \<open>newFavoritesAdded\<close> is the length of the decoded incoming list, whether
  or not a candidate is already present in the current list.
\<close>

theorem add_result_counts:
  assumes "success (body (fst (action_update env req))) = Some True"
  shows "\<exists>c p result.
           update_prelude env req = Continue c
         \<and> update_plan env c = Continue p
         \<and> fetch_json (fetch_read env) = Inr result
         \<and> current_favorites (existing_metafield result) = Inr (currentFavorites p)
         \<and> all_new_favorites (metafields c) = Inr (allNewFavorites p)
         \<and> mergedFavorites p = first_seen (currentFavorites p @ allNewFavorites p)
         \<and> (\<exists>msg created verification mutationResult updated.
               body (fst (action_update env req)) =
                 Added msg (length (currentFavorites p)) (length (allNewFavorites p))
                   (length (mergedFavorites p)) (mergedFavorites p)
                   created verification mutationResult updated)
         \<and> newFavoritesAdded (body (fst (action_update env req)))
             = Some (length (allNewFavorites p))"
proof -
  from assms have m: "meth req \<noteq> str ''OPTIONS''"
    by (auto simp: action_update_def split: if_splits)
  from assms m obtain c where c: "update_prelude env req = Continue c"
    using update_prelude_not_return [of env req]
    by (cases "update_prelude env req") (auto simp: action_update_def try_update_def)
  from assms m c obtain p where p: "update_plan env c = Continue p"
    using update_plan_return_fails [of env c]
    by (cases "update_plan env c") (auto simp: action_update_def try_update_def)
  note run = update_after_plan [OF m c p]
  from assms run obtain mutationResult where w: "update_write env = Continue mutationResult"
    using update_write_return_fails [of env]
    by (cases "update_write env") auto
  from assms run w obtain verification where v: "fetch_json (fetch_verify env) = Inr verification"
    by (cases "fetch_json (fetch_verify env)") (auto simp: update_verify_def)
  from update_plan_continue [OF p] obtain result
    where r: "fetch_json (fetch_read env) = Inr result"
      "current_favorites (existing_metafield result) = Inr (currentFavorites p)"
      "all_new_favorites (metafields c) = Inr (allNewFavorites p)"
      "mergedFavorites p = merge_favorites (currentFavorites p) (allNewFavorites p)"
    by blast
  from r(4) have fs: "mergedFavorites p = first_seen (currentFavorites p @ allNewFavorites p)"
    by (simp add: merge_favorites_def array_from_set_first_seen)
  from run w v have b: "body (fst (action_update env req)) =
      Added (added_message p) (length (currentFavorites p)) (length (allNewFavorites p))
        (length (mergedFavorites p)) (mergedFavorites p)
        (js_or (opt_prop (mutation_payload mutationResult (str ''metafieldsSet'')) (str ''metafields''))
           (JArr []))
        verification mutationResult
        (length_prop
           (js_or (opt_prop (mutation_payload mutationResult (str ''metafieldsSet'')) (str ''metafields''))
              (JArr [])))"
    by (simp add: update_verify_def)
  then have n: "newFavoritesAdded (body (fst (action_update env req)))
             = Some (length (allNewFavorites p))"
    by simp
  from c p r(1,2,3) fs b n show ?thesis by blast
qed

theorem add_result_counts_witness:
  "success (body (fst (action_update
      (store_env (field_reply (str ''a'')) (reply set_reply) (reply (field_reply (str ''a\<newline>b''))))
      (add_request (str ''b''))))) = Some True
   \<and> all_new_favorites (metafields (add_ctx (str ''b''))) = Inr [str ''b'']
   \<and> newFavoritesAdded (body (fst (action_update
      (store_env (field_reply (str ''a'')) (reply set_reply) (reply (field_reply (str ''a\<newline>b''))))
      (add_request (str ''b''))))) = Some 1"
proof -
  let ?env = "store_env (field_reply (str ''a'')) (reply set_reply) (reply (field_reply (str ''a\<newline>b'')))"
  have s: "success (body (fst (action_update ?env (add_request (str ''b''))))) = Some True"
    using update_after_plan [OF add_request_meth add_prelude add_plan_a_b,
        of "reply set_reply" "reply (field_reply (str ''a\<newline>b''))"]
    by (simp add: set_reply_write update_verify_def verify_field)
  from add_result_counts [OF s] obtain c p
    where c: "update_prelude ?env (add_request (str ''b'')) = Continue c"
      and p: "update_plan ?env c = Continue p"
      and new: "all_new_favorites (metafields c) = Inr (allNewFavorites p)"
      and n: "newFavoritesAdded (body (fst (action_update ?env (add_request (str ''b'')))))
                = Some (length (allNewFavorites p))"
    by blast
  from c have c': "c = add_ctx (str ''b'')" by (simp add: add_prelude)
  from p have p': "p = \<lparr>currentFavorites = [str ''a''], allNewFavorites = [str ''b''],
                        mergedFavorites = [str ''a'', str ''b'']\<rparr>"
    by (simp add: c' add_plan_a_b)
  from s new n show ?thesis by (simp add: c' p')
qed

text \<open>
  C9 as stated fails: the store holds \<^verbatim>\<open>a\<close> and the request adds \<^verbatim>\<open>a\<close> again. No incoming
  candidate is new, and the successful response reports \<open>newFavoritesAdded\<close> 1.
\<close>

theorem add_result_counts_counterexample:
  "current_favorites (existing_metafield (field_reply (str ''a''))) = Inr [str ''a'']
   \<and> all_new_favorites (metafields (add_ctx (str ''a''))) = Inr [str ''a'']
   \<and> net_new [str ''a''] [str ''a''] = 0
   \<and> success (body (fst (action_update
        (store_env (field_reply (str ''a'')) (reply set_reply) (reply (field_reply (str ''a''))))
        (add_request (str ''a''))))) = Some True
   \<and> newFavoritesAdded (body (fst (action_update
        (store_env (field_reply (str ''a'')) (reply set_reply) (reply (field_reply (str ''a''))))
        (add_request (str ''a''))))) = Some 1"
proof -
  have 1: "current_favorites (existing_metafield (field_reply (str ''a''))) = Inr [str ''a'']"
    unfolding field_reply_current by (simp add: string_defs codec_defs)
  have 2: "all_new_favorites (metafields (add_ctx (str ''a''))) = Inr [str ''a'']"
    by (simp add: new_values_def add_ctx_def string_defs codec_defs)
  have 3: "net_new [str ''a''] [str ''a''] = 0" by (simp add: net_new_def)
  have 4: "success (body (fst (action_update
        (store_env (field_reply (str ''a'')) (reply set_reply) (reply (field_reply (str ''a''))))
        (add_request (str ''a''))))) = Some True"
    and 5: "newFavoritesAdded (body (fst (action_update
        (store_env (field_reply (str ''a'')) (reply set_reply) (reply (field_reply (str ''a''))))
        (add_request (str ''a''))))) = Some 1"
    using update_after_plan [OF add_request_meth add_prelude add_plan_a_a,
        of "reply set_reply" "reply (field_reply (str ''a''))"]
    by (simp_all add: set_reply_write update_verify_def verify_field)
  from 1 2 3 4 5 show ?thesis by blast
qed


end
